theory Spec2Isabelle
  imports Complex_Main
begin

section \<open>Steady-state residual systems of \<^verbatim>\<open>PKModel/functors/SS_system.hpp\<close>\<close>

text \<open>
  The header defines two functors, \<^verbatim>\<open>SS_system_dd\<close> (dose amount and rate are data) and
  \<^verbatim>\<open>SS_system_vd\<close> (the amount is a parameter, the rate is data). Each holds a
  right-hand-side functor \<^verbatim>\<open>f_\<close>, the interdose interval \<^verbatim>\<open>ii_\<close>, the dosing compartment
  \<^verbatim>\<open>cmt_\<close> and an integrator, and its \<^verbatim>\<open>operator()\<close> maps a candidate state to the residual
  of the steady-state equation.

  Conventions of the embedding:
  \<^item> a C++ \<^verbatim>\<open>double\<close> is the \<^typ>\<open>real\<close> it stands for. Comparisons of doubles are exact.
    The two operations the functors perform on plain doubles, the quotient \<^verbatim>\<open>amt / rate\<close>
    and the difference \<^verbatim>\<open>ii_ - delta\<close>, are the exact results rounded to binary64, to
    nearest with ties to even (\<open>round_double\<close> below). NaN and the infinities are not
    represented: a result beyond the largest finite double keeps its sign and is rounded to
    53 bits, so it compares with a finite double as the infinity would;
  \<^item> the promoted scalar type of the templates (\<^verbatim>\<open>double\<close> or an autodiff variable) is a
    type \<open>'a\<close> of class \<open>real_algebra_1\<close>, with the sum and difference of that type;
    promoting a \<^verbatim>\<open>double\<close> is \<^const>\<open>of_real\<close>;
  \<^item> \<^verbatim>\<open>std::vector\<close> and \<^verbatim>\<open>Eigen::Matrix<_, Dynamic, 1>\<close> are lists, so \<^verbatim>\<open>to_array_1d\<close>
    and \<^verbatim>\<open>to_vector\<close> are the identity;
  \<^item> an exception is a value \<open>Inl e\<close> of a sum type; a read or write outside a vector, which
    C++ leaves undefined, ends the evaluation with \<open>Out_of_bounds\<close>;
  \<^item> the unused \<^verbatim>\<open>std::ostream* msgs\<close> argument, and the null stream passed to \<^verbatim>\<open>f_\<close>, are
    dropped;
  \<^item> every evaluation returns, next to its outcome, the list of integrator invocations it
    made, in order.
\<close>

subsection \<open>Arithmetic of doubles\<close>

text \<open>
  A finite binary64 number is \<open>n * 2 ^ q\<close> with an integer \<open>n\<close> of at most 53 bits and
  \<open>q\<close> at least \<open>-1074\<close>. \<open>binade a\<close> is the exponent \<open>e\<close> with \<open>2 ^ e \<le> a < 2 ^ (e + 1)\<close>
  of a positive \<open>a\<close>; \<open>round_double\<close> rounds to the nearest multiple of \<open>2 ^ (e - 52)\<close>, or
  of \<open>2 ^ -1074\<close> in the subnormal range, ties going to the even multiple. IEEE 754 division
  and subtraction return the exact result rounded in this way.
\<close>

fun floorlog2 :: "nat \<Rightarrow> nat" where
  "floorlog2 n = (if n < 2 then 0 else Suc (floorlog2 (n div 2)))"

declare floorlog2.simps [simp del]

definition binade :: "real \<Rightarrow> int" where
  "binade a =
     (if 1 \<le> a then int (floorlog2 (nat \<lfloor>a\<rfloor>))
      else if nat \<lceil>1 / a\<rceil> \<le> 1 then 0
      else - int (Suc (floorlog2 (nat \<lceil>1 / a\<rceil> - 1))))"

definition round_half_even :: "real \<Rightarrow> int" where
  "round_half_even m =
     (let n = \<lfloor>m\<rfloor>; d = m - of_int n
      in if d < 1 / 2 then n else if d > 1 / 2 then n + 1 else if even n then n else n + 1)"

definition round_double :: "real \<Rightarrow> real" where
  "round_double x =
     (if x = 0 then 0
      else
        let q = max (binade \<bar>x\<bar> - 52) (- 1074)
        in of_int (round_half_even (x / 2 powi q)) * 2 powi q)"

definition double_div :: "real \<Rightarrow> real \<Rightarrow> real" where
  "double_div a b = round_double (a / b)"

definition double_sub :: "real \<Rightarrow> real \<Rightarrow> real" where
  "double_sub a b = round_double (a - b)"

subsection \<open>Failures\<close>

text \<open>
  What a collaborator throws is an exception of class \<^verbatim>\<open>std::invalid_argument\<close> or of any
  other class, with its message. The functor catches nothing, so the exception leaves the
  operator as it is (\<open>Collaborator_failure\<close>).
\<close>

datatype thrown = Thrown_invalid_argument string | Thrown_other string

datatype msg_part = Txt string | Num real

datatype failure =
    Invalid_argument string string msg_part string "msg_part list"
  | Length_error
  | Out_of_bounds
  | Collaborator_failure thrown

text \<open>
  Modelled from the spec: \<^verbatim>\<open>stan::math::invalid_argument(function, name, y, msg1, msg2)\<close> is
  called by the header but defined outside \<^verbatim>\<open>src/\<close>. The spec calls its effect an
  invalid-argument failure that aborts the evaluation and carries the offending values; the
  model never returns normally and keeps the five arguments as the payload of the failure.
\<close>

definition invalid_argument ::
  "string \<Rightarrow> string \<Rightarrow> msg_part \<Rightarrow> string \<Rightarrow> msg_part list \<Rightarrow> failure" where
  "invalid_argument function name y msg1 msg2 = Invalid_argument function name y msg1 msg2"

text \<open>The outcome is the failure the functor raises itself through
  \<^verbatim>\<open>stan::math::invalid_argument\<close>.\<close>

fun is_invalid_argument :: "failure + 'b \<Rightarrow> bool" where
  "is_invalid_argument (Inl (Invalid_argument fn nm v m1 m2)) = True"
| "is_invalid_argument _ = False"


subsection \<open>Collaborators\<close>

text \<open>
  The right-hand side \<^verbatim>\<open>f_(t, x, parms, rate, dat_int, msgs)\<close> and the integrator
  \<^verbatim>\<open>integrator_(f, y0, t0, ts, parms, rate, dat_int)\<close> are opaque to the functors (the first
  is the template parameter \<^verbatim>\<open>F\<close>, the second has the type \<^verbatim>\<open>integrator_structure\<close>, declared
  outside \<^verbatim>\<open>src/\<close>): here any function of the arguments, which may throw (\<open>Inl\<close> of what is
  thrown) or return vectors of any length. As functions they are deterministic and leave
  their arguments alone; both are called through the \<^verbatim>\<open>const\<close> \<^verbatim>\<open>operator()\<close> of the functor.
  A failure of a collaborator is kept apart from the failures the functor raises itself.
\<close>

type_synonym 'a rhs =
  "real \<Rightarrow> 'a list \<Rightarrow> 'a list \<Rightarrow> real list \<Rightarrow> int list \<Rightarrow> thrown + 'a list"

type_synonym 'a integrator_structure =
  "'a rhs \<Rightarrow> 'a list \<Rightarrow> real \<Rightarrow> real list \<Rightarrow> 'a list \<Rightarrow> real list \<Rightarrow> int list
     \<Rightarrow> thrown + 'a list list"

record 'a integrator_call =
  call_f :: "'a rhs"
  call_init :: "'a list"
  call_t0 :: real
  call_ts :: "real list"
  call_parms :: "'a list"
  call_rate :: "real list"
  call_dat_int :: "int list"

text \<open>\<^verbatim>\<open>integrator_(f, y0, t0, ts, parms, rate, dat_int)[0]\<close>: the call and the unchecked read of
  the first returned state.\<close>

definition first_state ::
  "'a integrator_structure \<Rightarrow> 'a integrator_call \<Rightarrow> failure + 'a list" where
  "first_state integrator c =
     (case integrator (call_f c) (call_init c) (call_t0 c) (call_ts c) (call_parms c)
             (call_rate c) (call_dat_int c) of
        Inl e \<Rightarrow> Inl (Collaborator_failure e)
      | Inr [] \<Rightarrow> Inl Out_of_bounds
      | Inr (p # ps) \<Rightarrow> Inr p)"

text \<open>\<^verbatim>\<open>for (int i = 0; i < result.size(); i++) result(i) = x(i) - pred[i];\<close> where \<^verbatim>\<open>result\<close>
  has the size of \<^verbatim>\<open>x\<close>; \<^verbatim>\<open>pred[i]\<close> is unchecked.\<close>

definition residual :: "'a::real_algebra_1 list \<Rightarrow> 'a list \<Rightarrow> failure + 'a list" where
  "residual x pred =
     (if length pred < length x then Inl Out_of_bounds
      else Inr (map (\<lambda>i. x ! i - pred ! i) [0..<length x]))"

text \<open>\<^verbatim>\<open>result = to_vector(f_(0, x, parms, rate, dat_int, 0))\<close>: the assignment resizes
  \<^verbatim>\<open>result\<close> to the size of the derivative.\<close>

definition derivative ::
  "'a rhs \<Rightarrow> 'a list \<Rightarrow> 'a list \<Rightarrow> real list \<Rightarrow> int list \<Rightarrow> failure + 'a list" where
  "derivative f x parms rate dat_int =
     (case f 0 x parms rate dat_int of
        Inl e \<Rightarrow> Inl (Collaborator_failure e)
      | Inr d \<Rightarrow> Inr d)"

subsection \<open>\<^verbatim>\<open>SS_system_dd\<close>: amount and rate are data\<close>

record 'a SS_system_dd =
  dd_f :: "'a rhs"
  dd_ii :: real
  dd_cmt :: int
  dd_integrator :: "'a integrator_structure"

text \<open>Bolus branch, lines 67 to 73. \<^verbatim>\<open>x0\<close> is the copy of \<^verbatim>\<open>x\<close> made at line 60.\<close>

definition dd_bolus ::
  "'a::real_algebra_1 SS_system_dd \<Rightarrow> 'a list \<Rightarrow> 'a list \<Rightarrow> real list \<Rightarrow> int list \<Rightarrow> real
     \<Rightarrow> 'a integrator_call list \<times> (failure + 'a list)" where
  "dd_bolus s x y dat dat_int amt =
     (if \<not> (1 \<le> dd_cmt s \<and> dd_cmt s \<le> int (length x)) then ([], Inl Out_of_bounds)
      else
        let k = nat (dd_cmt s - 1);
            x0 = x[k := x ! k + of_real amt];
            ts = [dd_ii s];
            c = \<lparr>call_f = dd_f s, call_init = x0, call_t0 = 0, call_ts = ts,
                 call_parms = y, call_rate = dat, call_dat_int = dat_int\<rparr>
        in case first_state (dd_integrator s) c of
             Inl e \<Rightarrow> ([c], Inl e)
           | Inr pred \<Rightarrow> ([c], residual x pred))"

text \<open>Truncated infusions, lines 76 to 119. \<^verbatim>\<open>delta\<close> is the quotient of two doubles and
  \<^verbatim>\<open>ii_ - delta\<close> their difference, both as the machine rounds them. The inner \<^verbatim>\<open>rate_v\<close>
  of line 91 is a new vector of \<^verbatim>\<open>dat.size()\<close> zeros.\<close>

definition dd_truncated ::
  "'a::real_algebra_1 SS_system_dd \<Rightarrow> 'a list \<Rightarrow> 'a list \<Rightarrow> real list \<Rightarrow> int list \<Rightarrow> real \<Rightarrow> real
     \<Rightarrow> 'a integrator_call list \<times> (failure + 'a list)" where
  "dd_truncated s x y dat dat_int amt rate =
     (let delta = double_div amt rate in
      if delta > dd_ii s then
        ([], Inl (invalid_argument ''Steady State Solution'' ''Infusion time (F * amt / rate)''
                    (Num delta) ''is ''
                    [Txt '' but must be smaller than the interdose interval (ii): '',
                     Num (dd_ii s), Txt ''!'']))
      else
        let c1 = \<lparr>call_f = dd_f s, call_init = x, call_t0 = 0, call_ts = [delta],
                  call_parms = y, call_rate = dat, call_dat_int = dat_int\<rparr>
        in case first_state (dd_integrator s) c1 of
             Inl e \<Rightarrow> ([c1], Inl e)
           | Inr x0 \<Rightarrow>
               let rate_v = replicate (length dat) 0;
                   c2 = \<lparr>call_f = dd_f s, call_init = x0, call_t0 = 0,
                         call_ts = [double_sub (dd_ii s) delta], call_parms = y,
                         call_rate = rate_v, call_dat_int = dat_int\<rparr>
               in (case first_state (dd_integrator s) c2 of
                     Inl e \<Rightarrow> ([c1, c2], Inl e)
                   | Inr pred \<Rightarrow> ([c1, c2], residual x pred)))"

text \<open>Constant infusion, lines 122 to 124.\<close>

definition dd_continuous ::
  "'a SS_system_dd \<Rightarrow> 'a list \<Rightarrow> 'a list \<Rightarrow> real list \<Rightarrow> int list
     \<Rightarrow> 'a integrator_call list \<times> (failure + 'a list)" where
  "dd_continuous s x y rate_v dat_int = ([], derivative (dd_f s) x y rate_v dat_int)"

text \<open>
  \<^verbatim>\<open>SS_system_dd::operator()\<close>. \<^verbatim>\<open>dat.size() - 1\<close> is unsigned: on an empty \<^verbatim>\<open>dat\<close> it wraps
  to the largest \<^verbatim>\<open>size_t\<close> and the constructor of \<^verbatim>\<open>rate_v\<close> throws \<^verbatim>\<open>std::length_error\<close>.
  \<^verbatim>\<open>dat[cmt_ - 1]\<close> is an unchecked read.
\<close>

definition SS_system_dd_call ::
  "'a::real_algebra_1 SS_system_dd \<Rightarrow> 'a list \<Rightarrow> 'a list \<Rightarrow> real list \<Rightarrow> int list
     \<Rightarrow> 'a integrator_call list \<times> (failure + 'a list)" where
  "SS_system_dd_call s x y dat dat_int =
     (if dat = [] then ([], Inl Length_error)
      else
        let rate_v = map (\<lambda>i. dat ! i) [0..<length dat - 1];
            amt = dat ! (length dat - 1)
        in if \<not> (1 \<le> dd_cmt s \<and> dd_cmt s \<le> int (length dat)) then ([], Inl Out_of_bounds)
           else
             let rate = dat ! nat (dd_cmt s - 1)
             in if rate = 0 then dd_bolus s x y dat dat_int amt
                else if dd_ii s > 0 then dd_truncated s x y dat dat_int amt rate
                else dd_continuous s x y rate_v dat_int)"

subsection \<open>\<^verbatim>\<open>SS_system_vd\<close>: the amount is a parameter\<close>

record 'a SS_system_vd =
  vd_f :: "'a rhs"
  vd_ii :: real
  vd_cmt :: int
  vd_integrator :: "'a integrator_structure"

text \<open>Bolus branch, lines 194 to 200.\<close>

definition vd_bolus ::
  "'a::real_algebra_1 SS_system_vd \<Rightarrow> 'a list \<Rightarrow> 'a list \<Rightarrow> real list \<Rightarrow> int list \<Rightarrow> 'a
     \<Rightarrow> 'a integrator_call list \<times> (failure + 'a list)" where
  "vd_bolus s x parms dat dat_int amt =
     (if \<not> (1 \<le> vd_cmt s \<and> vd_cmt s \<le> int (length x)) then ([], Inl Out_of_bounds)
      else
        let k = nat (vd_cmt s - 1);
            x0 = x[k := x ! k + amt];
            ts = [vd_ii s];
            c = \<lparr>call_f = vd_f s, call_init = x0, call_t0 = 0, call_ts = ts,
                 call_parms = parms, call_rate = dat, call_dat_int = dat_int\<rparr>
        in case first_state (vd_integrator s) c of
             Inl e \<Rightarrow> ([c], Inl e)
           | Inr pred \<Rightarrow> ([c], residual x pred))"

text \<open>Truncated infusions, lines 203 to 207: the failure is raised before anything else.\<close>

definition vd_truncated :: "'a integrator_call list \<times> (failure + 'a list)" where
  "vd_truncated =
     ([], Inl (invalid_argument ''Steady State Solution''
                 ''Current version does not handle case of a'' (Txt '''')
                 '' multple truncated infusion solution''
                 [Txt ''(i.e ii > 0 and rate > 0) when F * amt is a parameter'']))"

text \<open>Constant infusion, lines 210 to 212.\<close>

definition vd_continuous ::
  "'a SS_system_vd \<Rightarrow> 'a list \<Rightarrow> 'a list \<Rightarrow> real list \<Rightarrow> int list
     \<Rightarrow> 'a integrator_call list \<times> (failure + 'a list)" where
  "vd_continuous s x parms dat dat_int = ([], derivative (vd_f s) x parms dat dat_int)"

text \<open>
  \<^verbatim>\<open>SS_system_vd::operator()\<close>. \<^verbatim>\<open>y(y.size() - 1)\<close> and \<^verbatim>\<open>dat[cmt_ - 1]\<close> are unchecked reads;
  \<^verbatim>\<open>parms\<close> is \<^verbatim>\<open>y\<close> without its last element.
\<close>

definition SS_system_vd_call ::
  "'a::real_algebra_1 SS_system_vd \<Rightarrow> 'a list \<Rightarrow> 'a list \<Rightarrow> real list \<Rightarrow> int list
     \<Rightarrow> 'a integrator_call list \<times> (failure + 'a list)" where
  "SS_system_vd_call s x y dat dat_int =
     (let rate_v = map (\<lambda>i. dat ! i) [0..<length dat]
      in if y = [] then ([], Inl Out_of_bounds)
         else
           let amt = y ! (length y - 1)
           in if \<not> (1 \<le> vd_cmt s \<and> vd_cmt s \<le> int (length dat)) then ([], Inl Out_of_bounds)
              else
                let rate = dat ! nat (vd_cmt s - 1);
                    parms = map (\<lambda>i. y ! i) [0..<length y - 1]
                in if rate = 0 then vd_bolus s x parms dat dat_int amt
                   else if vd_ii s > 0 then vd_truncated
                   else vd_continuous s x parms dat dat_int)"

subsection \<open>The same code over an explicit frame\<close>

text \<open>
  To speak about what an evaluation writes, the two operators are given a second time,
  statement by statement, over a frame that holds every object in scope: the functor itself
  (\<^verbatim>\<open>this\<close>), the four arguments passed by reference, and the local vectors \<^verbatim>\<open>ts\<close>,
  \<^verbatim>\<open>rate_v\<close>, \<^verbatim>\<open>x0\<close>, \<^verbatim>\<open>parms\<close> (declared by \<^verbatim>\<open>SS_system_vd\<close> only) and \<^verbatim>\<open>result\<close>. On
  entry the locals hold whatever the frame held before. Scalars that are initialised once
  (\<^verbatim>\<open>t0\<close>, \<^verbatim>\<open>amt\<close>, \<^verbatim>\<open>rate\<close>, \<^verbatim>\<open>delta\<close>) and the vectors \<^verbatim>\<open>pred\<close> and the inner \<^verbatim>\<open>rate_v\<close> of
  line 91, which are never written after their initialisation, are bound by \<open>let\<close>.
  \<open>fr_calls\<close> is the log of integrator invocations. Eigen leaves the coefficients of
  \<^verbatim>\<open>result(x.size())\<close> uninitialised; the frame starts them at zero, and every path that
  returns \<^verbatim>\<open>result\<close> overwrites all of them first.
\<close>

record ('s, 'a) frame =
  fr_this :: 's
  fr_x :: "'a list"
  fr_y :: "'a list"
  fr_dat :: "real list"
  fr_dat_int :: "int list"
  fr_ts :: "real list"
  fr_rate_v :: "real list"
  fr_x0 :: "'a list"
  fr_parms :: "'a list"
  fr_result :: "'a list"
  fr_calls :: "'a integrator_call list"

definition record_call :: "('s, 'a) frame \<Rightarrow> 'a integrator_call \<Rightarrow> ('s, 'a) frame" where
  "record_call fr c = fr\<lparr>fr_calls := fr_calls fr @ [c]\<rparr>"

text \<open>What a frame holds on behalf of the caller: the functor and the four arguments. The
  locals and the log are the rest.\<close>

definition frame_inputs ::
  "('s, 'a) frame \<Rightarrow> 's \<times> 'a list \<times> 'a list \<times> real list \<times> int list" where
  "frame_inputs fr = (fr_this fr, fr_x fr, fr_y fr, fr_dat fr, fr_dat_int fr)"

text \<open>The frame on entry when the locals hold nothing and no call has been logged.\<close>

definition fresh_frame ::
  "'s \<Rightarrow> 'a list \<Rightarrow> 'a list \<Rightarrow> real list \<Rightarrow> int list \<Rightarrow> ('s, 'a) frame" where
  "fresh_frame this x y dat dat_int =
     \<lparr>fr_this = this, fr_x = x, fr_y = y, fr_dat = dat, fr_dat_int = dat_int, fr_ts = [],
      fr_rate_v = [], fr_x0 = [], fr_parms = [], fr_result = [], fr_calls = []\<rparr>"

text \<open>The loop \<^verbatim>\<open>result(i) = x(i) - pred[i]\<close> followed by \<^verbatim>\<open>return result\<close>.\<close>

definition write_residual ::
  "('s, 'a::real_algebra_1) frame \<Rightarrow> 'a list \<Rightarrow> (failure + 'a list) \<times> ('s, 'a) frame" where
  "write_residual fr pred =
     (if length pred < length (fr_result fr) then (Inl Out_of_bounds, fr)
      else
        let fr' = fr\<lparr>fr_result := map (\<lambda>i. fr_x fr ! i - pred ! i) [0..<length (fr_result fr)]\<rparr>
        in (Inr (fr_result fr'), fr'))"

text \<open>\<^verbatim>\<open>result = to_vector(derivative)\<close> followed by \<^verbatim>\<open>return result\<close>.\<close>

definition write_derivative ::
  "('s, 'a) frame \<Rightarrow> failure + 'a list \<Rightarrow> (failure + 'a list) \<times> ('s, 'a) frame" where
  "write_derivative fr d =
     (case d of
        Inl e \<Rightarrow> (Inl e, fr)
      | Inr v \<Rightarrow> (let fr' = fr\<lparr>fr_result := v\<rparr> in (Inr (fr_result fr'), fr')))"

definition dd_exec_bolus ::
  "('a::real_algebra_1 SS_system_dd, 'a) frame \<Rightarrow> real
     \<Rightarrow> (failure + 'a list) \<times> ('a SS_system_dd, 'a) frame" where
  "dd_exec_bolus fr amt =
     (let this = fr_this fr in
      if \<not> (1 \<le> dd_cmt this \<and> dd_cmt this \<le> int (length (fr_x0 fr)))
      then (Inl Out_of_bounds, fr)
      else
        let k = nat (dd_cmt this - 1);
            fr1 = fr\<lparr>fr_x0 := (fr_x0 fr)[k := fr_x0 fr ! k + of_real amt]\<rparr>;
            fr2 = fr1\<lparr>fr_ts := (fr_ts fr1)[0 := dd_ii this]\<rparr>;
            c = \<lparr>call_f = dd_f this, call_init = fr_x0 fr2, call_t0 = 0, call_ts = fr_ts fr2,
                 call_parms = fr_y fr2, call_rate = fr_dat fr2, call_dat_int = fr_dat_int fr2\<rparr>;
            fr3 = record_call fr2 c
        in case first_state (dd_integrator this) c of
             Inl e \<Rightarrow> (Inl e, fr3)
           | Inr pred \<Rightarrow> write_residual fr3 pred)"

definition dd_exec_truncated ::
  "('a::real_algebra_1 SS_system_dd, 'a) frame \<Rightarrow> real \<Rightarrow> real
     \<Rightarrow> (failure + 'a list) \<times> ('a SS_system_dd, 'a) frame" where
  "dd_exec_truncated fr amt rate =
     (let this = fr_this fr;
          delta = double_div amt rate
      in if delta > dd_ii this then
           (Inl (invalid_argument ''Steady State Solution'' ''Infusion time (F * amt / rate)''
                   (Num delta) ''is ''
                   [Txt '' but must be smaller than the interdose interval (ii): '',
                    Num (dd_ii this), Txt ''!'']), fr)
         else
           let fr1 = fr\<lparr>fr_ts := (fr_ts fr)[0 := delta]\<rparr>;
               c1 = \<lparr>call_f = dd_f this, call_init = fr_x fr1, call_t0 = 0,
                     call_ts = fr_ts fr1, call_parms = fr_y fr1, call_rate = fr_dat fr1,
                     call_dat_int = fr_dat_int fr1\<rparr>;
               fr2 = record_call fr1 c1
           in case first_state (dd_integrator this) c1 of
                Inl e \<Rightarrow> (Inl e, fr2)
              | Inr p \<Rightarrow>
                  let fr3 = fr2\<lparr>fr_x0 := p\<rparr>;
                      fr4 = fr3\<lparr>fr_ts := (fr_ts fr3)[0 := double_sub (dd_ii this) delta]\<rparr>;
                      rate_v = replicate (length (fr_dat fr4)) 0;
                      c2 = \<lparr>call_f = dd_f this, call_init = fr_x0 fr4, call_t0 = 0,
                            call_ts = fr_ts fr4, call_parms = fr_y fr4, call_rate = rate_v,
                            call_dat_int = fr_dat_int fr4\<rparr>;
                      fr5 = record_call fr4 c2
                  in (case first_state (dd_integrator this) c2 of
                        Inl e \<Rightarrow> (Inl e, fr5)
                      | Inr pred \<Rightarrow> write_residual fr5 pred))"

definition dd_exec_continuous ::
  "('a SS_system_dd, 'a) frame \<Rightarrow> (failure + 'a list) \<times> ('a SS_system_dd, 'a) frame" where
  "dd_exec_continuous fr =
     write_derivative fr
       (derivative (dd_f (fr_this fr)) (fr_x fr) (fr_y fr) (fr_rate_v fr) (fr_dat_int fr))"

definition dd_exec ::
  "('a::real_algebra_1 SS_system_dd, 'a) frame
     \<Rightarrow> (failure + 'a list) \<times> ('a SS_system_dd, 'a) frame" where
  "dd_exec fr0 =
     (let this = fr_this fr0;
          fr1 = fr0\<lparr>fr_ts := [0]\<rparr>
      in if fr_dat fr1 = [] then (Inl Length_error, fr1)
         else
           let fr2 = fr1\<lparr>fr_rate_v := replicate (length (fr_dat fr1) - 1) 0\<rparr>;
               fr3 = fr2\<lparr>fr_rate_v := map (\<lambda>i. fr_dat fr2 ! i) [0..<length (fr_rate_v fr2)]\<rparr>;
               fr4 = fr3\<lparr>fr_x0 := replicate (length (fr_x fr3)) 0\<rparr>;
               fr5 = fr4\<lparr>fr_x0 := map (\<lambda>i. fr_x fr4 ! i) [0..<length (fr_x0 fr4)]\<rparr>;
               amt = fr_dat fr5 ! (length (fr_dat fr5) - 1)
           in if \<not> (1 \<le> dd_cmt this \<and> dd_cmt this \<le> int (length (fr_dat fr5)))
              then (Inl Out_of_bounds, fr5)
              else
                let rate = fr_dat fr5 ! nat (dd_cmt this - 1);
                    fr6 = fr5\<lparr>fr_result := replicate (length (fr_x fr5)) 0\<rparr>
                in if rate = 0 then dd_exec_bolus fr6 amt
                   else if dd_ii this > 0 then dd_exec_truncated fr6 amt rate
                   else dd_exec_continuous fr6)"

definition vd_exec_bolus ::
  "('a::real_algebra_1 SS_system_vd, 'a) frame \<Rightarrow> 'a
     \<Rightarrow> (failure + 'a list) \<times> ('a SS_system_vd, 'a) frame" where
  "vd_exec_bolus fr amt =
     (let this = fr_this fr in
      if \<not> (1 \<le> vd_cmt this \<and> vd_cmt this \<le> int (length (fr_x0 fr)))
      then (Inl Out_of_bounds, fr)
      else
        let k = nat (vd_cmt this - 1);
            fr1 = fr\<lparr>fr_x0 := (fr_x0 fr)[k := fr_x0 fr ! k + amt]\<rparr>;
            fr2 = fr1\<lparr>fr_ts := (fr_ts fr1)[0 := vd_ii this]\<rparr>;
            c = \<lparr>call_f = vd_f this, call_init = fr_x0 fr2, call_t0 = 0, call_ts = fr_ts fr2,
                 call_parms = fr_parms fr2, call_rate = fr_dat fr2,
                 call_dat_int = fr_dat_int fr2\<rparr>;
            fr3 = record_call fr2 c
        in case first_state (vd_integrator this) c of
             Inl e \<Rightarrow> (Inl e, fr3)
           | Inr pred \<Rightarrow> write_residual fr3 pred)"

definition vd_exec_truncated ::
  "('a SS_system_vd, 'a) frame \<Rightarrow> (failure + 'a list) \<times> ('a SS_system_vd, 'a) frame" where
  "vd_exec_truncated fr =
     (Inl (invalid_argument ''Steady State Solution''
             ''Current version does not handle case of a'' (Txt '''')
             '' multple truncated infusion solution''
             [Txt ''(i.e ii > 0 and rate > 0) when F * amt is a parameter'']), fr)"

definition vd_exec_continuous ::
  "('a SS_system_vd, 'a) frame \<Rightarrow> (failure + 'a list) \<times> ('a SS_system_vd, 'a) frame" where
  "vd_exec_continuous fr =
     write_derivative fr
       (derivative (vd_f (fr_this fr)) (fr_x fr) (fr_parms fr) (fr_dat fr) (fr_dat_int fr))"

definition vd_exec ::
  "('a::real_algebra_1 SS_system_vd, 'a) frame
     \<Rightarrow> (failure + 'a list) \<times> ('a SS_system_vd, 'a) frame" where
  "vd_exec fr0 =
     (let this = fr_this fr0;
          fr1 = fr0\<lparr>fr_ts := [0]\<rparr>;
          fr2 = fr1\<lparr>fr_rate_v := replicate (length (fr_dat fr1)) 0\<rparr>;
          fr3 = fr2\<lparr>fr_rate_v := map (\<lambda>i. fr_dat fr2 ! i) [0..<length (fr_rate_v fr2)]\<rparr>;
          fr4 = fr3\<lparr>fr_x0 := replicate (length (fr_x fr3)) 0\<rparr>;
          fr5 = fr4\<lparr>fr_x0 := map (\<lambda>i. fr_x fr4 ! i) [0..<length (fr_x0 fr4)]\<rparr>
      in if fr_y fr5 = [] then (Inl Out_of_bounds, fr5)
         else
           let amt = fr_y fr5 ! (length (fr_y fr5) - 1)
           in if \<not> (1 \<le> vd_cmt this \<and> vd_cmt this \<le> int (length (fr_dat fr5)))
              then (Inl Out_of_bounds, fr5)
              else
                let rate = fr_dat fr5 ! nat (vd_cmt this - 1);
                    fr6 = fr5\<lparr>fr_result := replicate (length (fr_x fr5)) 0\<rparr>;
                    fr7 = fr6\<lparr>fr_parms := replicate (length (fr_y fr6) - 1) 0\<rparr>;
                    fr8 = fr7\<lparr>fr_parms := map (\<lambda>i. fr_y fr7 ! i) [0..<length (fr_parms fr7)]\<rparr>
                in if rate = 0 then vd_exec_bolus fr8 amt
                   else if vd_ii this > 0 then vd_exec_truncated fr8
                   else vd_exec_continuous fr8)"

subsection \<open>Concrete collaborators for the examples\<close>

text \<open>A right-hand side of first-order elimination, a right-hand side that returns a single
  derivative whatever the state, an integrator that holds the initial state at every
  requested time, and one that does the same but, as ODE solvers do, refuses a requested
  time that is not after the initial time.\<close>

definition ex_rhs :: "real rhs" where
  "ex_rhs t x parms rate dat_int = Inr (map uminus x)"

definition ex_rhs_short :: "real rhs" where
  "ex_rhs_short t x parms rate dat_int = Inr [0]"

definition ex_integrator :: "real integrator_structure" where
  "ex_integrator f y0 t0 ts parms rate dat_int = Inr (map (\<lambda>t. y0) ts)"




definition ex_dd :: "real \<Rightarrow> real SS_system_dd" where
  "ex_dd ii = \<lparr>dd_f = ex_rhs, dd_ii = ii, dd_cmt = 1, dd_integrator = ex_integrator\<rparr>"

definition ex_vd :: "real \<Rightarrow> real SS_system_vd" where
  "ex_vd ii = \<lparr>vd_f = ex_rhs, vd_ii = ii, vd_cmt = 1, vd_integrator = ex_integrator\<rparr>"

section \<open>Properties\<close>

lemma copy_loop_take: "n \<le> length xs \<Longrightarrow> map (\<lambda>i. xs ! i) [0..<n] = take n xs"
  by (metis map_nth take_map take_upt add_0)

lemma copy_loop_butlast: "map (\<lambda>i. xs ! i) [0..<length xs - 1] = butlast xs"
  by (simp add: butlast_conv_take copy_loop_take)

lemma copy_loop_all: "map (\<lambda>i. xs ! i) [0..<length xs] = xs"
  by (rule map_nth)

subsection \<open>Rounding to a double\<close>

text \<open>\<open>binade\<close> is the exponent of the leading bit, and \<open>round_double\<close> returns a number of
  at most 53 bits at the exponent of its argument, within half a unit in the last place.\<close>

lemma floorlog2_bounds: "0 < n \<Longrightarrow> 2 ^ floorlog2 n \<le> n \<and> n < 2 ^ Suc (floorlog2 n)"
proof (induction n rule: floorlog2.induct)
  case (1 n)
  show ?case
  proof (cases "n < 2")
    case True
    with "1.prems" show ?thesis by (subst (1 2) floorlog2.simps) auto
  next
    case False
    then have "0 < n div 2" by simp
    with "1.IH" False
    have "2 ^ floorlog2 (n div 2) \<le> n div 2 \<and> n div 2 < 2 ^ Suc (floorlog2 (n div 2))"
      by simp
    then have "2 ^ Suc (floorlog2 (n div 2)) \<le> n \<and> n < 2 ^ Suc (Suc (floorlog2 (n div 2)))"
      by auto
    moreover have "floorlog2 n = Suc (floorlog2 (n div 2))"
      using False by (subst floorlog2.simps) simp
    ultimately show ?thesis by simp
  qed
qed

lemma round_half_even_near: "\<bar>of_int (round_half_even m) - m\<bar> \<le> 1 / 2"
  unfolding round_half_even_def Let_def by auto

lemma real_pow2_le: "(2::nat) ^ k \<le> n \<Longrightarrow> (2::real) ^ k \<le> real n"
proof -
  assume "(2::nat) ^ k \<le> n"
  then have "real (2 ^ k) \<le> real n" by (rule of_nat_mono)
  then show ?thesis by simp
qed

lemma real_le_pow2: "n \<le> (2::nat) ^ k \<Longrightarrow> real n \<le> (2::real) ^ k"
proof -
  assume "n \<le> (2::nat) ^ k"
  then have "real n \<le> real (2 ^ k)" by (rule of_nat_mono)
  then show ?thesis by simp
qed

lemma binade_bounds:
  assumes "0 < a"
  shows "2 powi binade a \<le> a \<and> a < 2 powi (binade a + 1)"
proof (cases "1 \<le> a")
  case True
  define k where "k = floorlog2 (nat \<lfloor>a\<rfloor>)"
  have n: "0 < nat \<lfloor>a\<rfloor>" using True by simp
  have b: "2 ^ k \<le> nat \<lfloor>a\<rfloor>" "Suc (nat \<lfloor>a\<rfloor>) \<le> 2 ^ Suc k"
    using floorlog2_bounds [OF n] by (simp_all add: k_def)
  have fl: "real (nat \<lfloor>a\<rfloor>) = of_int \<lfloor>a\<rfloor>" using True by simp
  have lo: "(2::real) ^ k \<le> a"
    using real_pow2_le [OF b(1)] fl by linarith
  have "real (Suc (nat \<lfloor>a\<rfloor>)) \<le> 2 ^ Suc k"
    using b(2) by (rule real_le_pow2)
  then have hi: "a < 2 ^ Suc k" using fl by simp linarith
  have bin: "binade a = int k" using True by (simp add: binade_def k_def)
  have "2 powi (int k) \<le> a" "a < 2 powi (int (Suc k))"
    using lo hi by (simp_all only: power_int_of_nat)
  then show ?thesis using bin by (simp add: add.commute)
next
  case False
  define c where "c = nat \<lceil>1 / a\<rceil>"
  define k where "k = floorlog2 (c - 1)"
  have t: "1 < 1 / a" using False assms by simp
  then have c2: "2 \<le> c" unfolding c_def by linarith
  have cu: "1 / a \<le> real c" unfolding c_def using t by linarith
  have cl: "real c - 1 < 1 / a" unfolding c_def using t by linarith
  have m: "0 < c - 1" using c2 by simp
  have b: "2 ^ k \<le> c - 1" "c \<le> 2 ^ Suc k"
    using floorlog2_bounds [OF m] c2 by (auto simp: k_def)
  have "real (c - 1) = real c - 1" using c2 by simp
  then have lo: "(2::real) ^ k < 1 / a"
    using real_pow2_le [OF b(1)] cl by linarith
  have hi: "1 / a \<le> 2 ^ Suc k"
    using real_le_pow2 [OF b(2)] cu by linarith
  have bin: "binade a = - int (Suc k)"
    using False c2 t by (simp add: binade_def k_def c_def)
  have p: "(0::real) < 2 ^ k" "(0::real) < 2 ^ Suc k" by simp_all
  have "1 / 2 ^ Suc k \<le> a"
    using hi assms p(2) by (simp only: field_simps)
  then have 1: "2 powi (- int (Suc k)) \<le> a"
    by (simp only: power_int_minus power_int_of_nat inverse_eq_divide)
  have "a < 1 / 2 ^ k"
    using lo assms p(1) by (simp only: field_simps)
  then have "a < 2 powi (- int k)"
    by (simp only: power_int_minus power_int_of_nat inverse_eq_divide)
  moreover have "- int (Suc k) + 1 = - int k" by simp
  ultimately show ?thesis using 1 bin by simp
qed

lemma round_double_nearest:
  assumes "x \<noteq> 0" and "q = max (binade \<bar>x\<bar> - 52) (- 1074)"
  shows "\<exists>n. round_double x = of_int n * 2 powi q \<and> \<bar>n\<bar> \<le> 2 ^ 53
           \<and> \<bar>round_double x - x\<bar> \<le> 2 powi q / 2"
proof -
  define n where "n = round_half_even (x / 2 powi q)"
  have p: "(0::real) < 2 powi q" by simp
  have r: "round_double x = of_int n * 2 powi q"
    using assms by (simp add: round_double_def n_def Let_def)
  have near: "\<bar>of_int n - x / 2 powi q\<bar> \<le> 1 / 2"
    unfolding n_def by (rule round_half_even_near)
  have "of_int n * 2 powi q - x = (of_int n - x / 2 powi q) * 2 powi q"
    using p by (simp add: left_diff_distrib)
  then have "\<bar>of_int n * 2 powi q - x\<bar> = \<bar>of_int n - x / 2 powi q\<bar> * 2 powi q"
    using p by (simp add: abs_mult)
  then have err: "\<bar>round_double x - x\<bar> \<le> 2 powi q / 2"
    using near p r by (simp add: mult_right_mono)
  have "\<bar>x\<bar> < 2 powi (binade \<bar>x\<bar> + 1)"
    using binade_bounds [of "\<bar>x\<bar>"] assms(1) by simp
  also have "\<dots> \<le> 2 powi (q + 53)"
    using assms(2) by (intro power_int_increasing) auto
  finally have "\<bar>x\<bar> < 2 powi q * 2 ^ 53"
    by (simp add: power_int_add)
  then have "\<bar>x\<bar> / 2 powi q < 2 ^ 53"
    using p by (simp add: field_simps)
  then have "\<bar>x / 2 powi q\<bar> < 2 ^ 53" using p by simp
  then have "\<bar>of_int n :: real\<bar> < 2 ^ 53 + 1" using near by linarith
  then have "real_of_int \<bar>n\<bar> < real_of_int (2 ^ 53 + 1)" by simp
  then have "\<bar>n\<bar> < 2 ^ 53 + 1" by (simp only: of_int_less_iff)
  then have "\<bar>n\<bar> \<le> 2 ^ 53" by simp
  with r err show ?thesis by blast
qed

text \<open>The quotients and differences of the examples, computed by the definitions.\<close>

lemma double_examples:
  shows "double_div 4 2 = 2" and "double_sub 10 2 = 8"
    and "double_div 10 2 = 5" and "double_sub 5 5 = 0"
    and "double_div 20 2 = 10" and "double_sub 10 10 = 0"
  by (simp_all add: double_div_def double_sub_def round_double_def binade_def
        round_half_even_def floorlog2.simps Let_def)


subsection \<open>Auxiliary facts\<close>

lemma copy_loop_butlast_Suc: "map (\<lambda>i. xs ! i) [0..<length xs - Suc 0] = butlast xs"
  using copy_loop_butlast [of xs] by simp

lemma dd_call_dispatch:
  assumes "dat \<noteq> []" "1 \<le> dd_cmt s" "dd_cmt s \<le> int (length dat)"
  shows "SS_system_dd_call s x y dat dat_int =
           (if dat ! nat (dd_cmt s - 1) = 0 then dd_bolus s x y dat dat_int (last dat)
            else if dd_ii s > 0
              then dd_truncated s x y dat dat_int (last dat) (dat ! nat (dd_cmt s - 1))
            else dd_continuous s x y (butlast dat) dat_int)"
  using assms
  by (simp add: SS_system_dd_call_def Let_def copy_loop_butlast_Suc last_conv_nth)

lemma vd_call_dispatch:
  assumes "y \<noteq> []" "1 \<le> vd_cmt s" "vd_cmt s \<le> int (length dat)"
  shows "SS_system_vd_call s x y dat dat_int =
           (if dat ! nat (vd_cmt s - 1) = 0 then vd_bolus s x (butlast y) dat dat_int (last y)
            else if vd_ii s > 0 then vd_truncated
            else vd_continuous s x (butlast y) dat dat_int)"
  using assms
  by (simp add: SS_system_vd_call_def Let_def copy_loop_butlast_Suc last_conv_nth)



lemma residual_Inr:
  "length x \<le> length pred \<Longrightarrow> residual x pred = Inr (map (\<lambda>i. x ! i - pred ! i) [0..<length x])"
  by (simp add: residual_def)

lemma residual_length: "residual x pred = Inr r \<Longrightarrow> length r = length x"
  by (auto simp: residual_def split: if_splits)

lemma dd_call_Inr_reached:
  "snd (SS_system_dd_call s x y dat dat_int) = Inr r
     \<Longrightarrow> dat \<noteq> [] \<and> 1 \<le> dd_cmt s \<and> dd_cmt s \<le> int (length dat)"
  by (auto simp: SS_system_dd_call_def Let_def split: if_splits)

lemma vd_call_Inr_reached:
  "snd (SS_system_vd_call s x y dat dat_int) = Inr r
     \<Longrightarrow> y \<noteq> [] \<and> 1 \<le> vd_cmt s \<and> vd_cmt s \<le> int (length dat)"
  by (auto simp: SS_system_vd_call_def Let_def split: if_splits)

subsection \<open>Regime dispatch\<close>

text \<open>
  C1. Whenever an evaluation gets as far as the dispatch (the reads before it are in range),
  the branch is fixed by the rate and the interdose interval, in both variants: rate zero
  runs the bolus branch whatever the interval; a nonzero rate with a positive interval runs
  the truncated-infusion branch; a nonzero rate with an interval that is zero or negative
  runs the continuous-infusion branch. The three conditions cover every pair of reals.
\<close>

theorem regime_dispatch_exact:
  fixes sd :: "'a::real_algebra_1 SS_system_dd" and sv :: "'a SS_system_vd"
  assumes "dat \<noteq> []" "1 \<le> dd_cmt sd" "dd_cmt sd \<le> int (length dat)"
    and "y \<noteq> []" "1 \<le> vd_cmt sv" "vd_cmt sv \<le> int (length dat')"
    and "rate = dat ! nat (dd_cmt sd - 1)" "rate' = dat' ! nat (vd_cmt sv - 1)"
  shows "(rate = 0 \<longrightarrow>
            SS_system_dd_call sd x yd dat dat_int = dd_bolus sd x yd dat dat_int (last dat))
       \<and> (rate \<noteq> 0 \<and> dd_ii sd > 0 \<longrightarrow>
            SS_system_dd_call sd x yd dat dat_int
              = dd_truncated sd x yd dat dat_int (last dat) rate)
       \<and> (rate \<noteq> 0 \<and> dd_ii sd \<le> 0 \<longrightarrow>
            SS_system_dd_call sd x yd dat dat_int = dd_continuous sd x yd (butlast dat) dat_int)
       \<and> (rate' = 0 \<longrightarrow>
            SS_system_vd_call sv x y dat' dat_int
              = vd_bolus sv x (butlast y) dat' dat_int (last y))
       \<and> (rate' \<noteq> 0 \<and> vd_ii sv > 0 \<longrightarrow> SS_system_vd_call sv x y dat' dat_int = vd_truncated)
       \<and> (rate' \<noteq> 0 \<and> vd_ii sv \<le> 0 \<longrightarrow>
            SS_system_vd_call sv x y dat' dat_int
              = vd_continuous sv x (butlast y) dat' dat_int)
       \<and> (rate = 0 \<or> (rate \<noteq> 0 \<and> dd_ii sd > 0) \<or> (rate \<noteq> 0 \<and> dd_ii sd \<le> 0))
       \<and> (rate' = 0 \<or> (rate' \<noteq> 0 \<and> vd_ii sv > 0) \<or> (rate' \<noteq> 0 \<and> vd_ii sv \<le> 0))"
  using assms by (auto simp: dd_call_dispatch vd_call_dispatch)

theorem regime_dispatch_exact_witness:
  "SS_system_dd_call (ex_dd 12) [1, 2] [] [0, 5, 3] []
     = dd_bolus (ex_dd 12) [1, 2] [] [0, 5, 3] [] 3
   \<and> SS_system_dd_call (ex_dd 10) [1, 2] [] [2, 0, 4] []
     = dd_truncated (ex_dd 10) [1, 2] [] [2, 0, 4] [] 4 2
   \<and> SS_system_dd_call (ex_dd 0) [1, 2] [] [2, 0, 4] []
     = dd_continuous (ex_dd 0) [1, 2] [] [2, 0] []
   \<and> SS_system_vd_call (ex_vd 12) [1, 2] [7, 3] [0, 5] []
     = vd_bolus (ex_vd 12) [1, 2] [7] [0, 5] [] 3
   \<and> SS_system_vd_call (ex_vd 1000) [1, 2] [7, 1] [100, 0] [] = vd_truncated
   \<and> SS_system_vd_call (ex_vd 0) [1, 2] [7, 1] [100, 0] []
     = vd_continuous (ex_vd 0) [1, 2] [7] [100, 0] []"
  using
    regime_dispatch_exact [where sd = "ex_dd 12" and sv = "ex_vd 12" and dat = "[0, 5, 3]"
      and dat' = "[0, 5]" and y = "[7, 3]" and rate = 0 and rate' = 0 and x = "[1, 2]"
      and yd = "[]" and dat_int = "[]"]
    regime_dispatch_exact [where sd = "ex_dd 10" and sv = "ex_vd 1000" and dat = "[2, 0, 4]"
      and dat' = "[100, 0]" and y = "[7, 1]" and rate = 2 and rate' = 100 and x = "[1, 2]"
      and yd = "[]" and dat_int = "[]"]
    regime_dispatch_exact [where sd = "ex_dd 0" and sv = "ex_vd 0" and dat = "[2, 0, 4]"
      and dat' = "[100, 0]" and y = "[7, 1]" and rate = 2 and rate' = 100 and x = "[1, 2]"
      and yd = "[]" and dat_int = "[]"]
  by (simp add: ex_dd_def ex_vd_def)

subsection \<open>Truncated infusions, fixed amount\<close>

text \<open>
  C2. In the truncated-infusion branch of \<^verbatim>\<open>SS_system_dd\<close> (nonzero rate, positive interval)
  with \<open>delta = amt / rate\<close>, as the machine computes it, at most the interval, and an
  integrator that returns a state for each of the two requests, the evaluation makes exactly
  two integrator calls: the first from time 0 over the span \<open>delta\<close>, starting at the
  candidate state \<open>x\<close>, with the data vector \<^verbatim>\<open>dat\<close> as its rate input; the second from time 0
  over the span \<open>ii - delta\<close>, as the machine computes it, starting at the state the first
  call returned, with an all-zero rate input. The residual returned is \<open>x ! i - pred ! i\<close> at
  every index, \<open>pred\<close> being the state the second call returned.
\<close>

theorem dd_truncated_two_calls:
  fixes s :: "'a::real_algebra_1 SS_system_dd"
  assumes "dat \<noteq> []" "1 \<le> dd_cmt s" "dd_cmt s \<le> int (length dat)"
    and "rate = dat ! nat (dd_cmt s - 1)" "rate \<noteq> 0" "dd_ii s > 0"
    and "delta = double_div (last dat) rate" "delta \<le> dd_ii s"
    and "c1 = \<lparr>call_f = dd_f s, call_init = x, call_t0 = 0, call_ts = [delta],
                call_parms = y, call_rate = dat, call_dat_int = dat_int\<rparr>"
    and "dd_integrator s (dd_f s) x 0 [delta] y dat dat_int = Inr (x1 # rest1)"
    and "c2 = \<lparr>call_f = dd_f s, call_init = x1, call_t0 = 0,
                call_ts = [double_sub (dd_ii s) delta], call_parms = y,
                call_rate = replicate (length dat) 0, call_dat_int = dat_int\<rparr>"
    and "dd_integrator s (dd_f s) x1 0 [double_sub (dd_ii s) delta] y
           (replicate (length dat) 0) dat_int = Inr (pred # rest2)"
    and "length x \<le> length pred"
  shows "SS_system_dd_call s x y dat dat_int
           = ([c1, c2], Inr (map (\<lambda>i. x ! i - pred ! i) [0..<length x]))"
proof -
  have f1: "first_state (dd_integrator s) c1 = Inr x1"
    using assms by (simp add: first_state_def)
  have f2: "first_state (dd_integrator s) c2 = Inr pred"
    using assms by (simp add: first_state_def)
  have "SS_system_dd_call s x y dat dat_int = dd_truncated s x y dat dat_int (last dat) rate"
    using assms by (simp add: dd_call_dispatch)
  also have "\<dots> = ([c1, c2], residual x pred)"
    using assms(7-9,11) f1 f2 by (simp add: dd_truncated_def Let_def)
  finally show ?thesis
    using assms(13) by (simp add: residual_Inr)
qed

theorem dd_truncated_two_calls_witness:
  "SS_system_dd_call (ex_dd 10) [1, 2] [] [2, 0, 4] [] =
     ([\<lparr>call_f = ex_rhs, call_init = [1, 2], call_t0 = 0, call_ts = [2], call_parms = [],
        call_rate = [2, 0, 4], call_dat_int = []\<rparr>,
       \<lparr>call_f = ex_rhs, call_init = [1, 2], call_t0 = 0, call_ts = [8], call_parms = [],
        call_rate = [0, 0, 0], call_dat_int = []\<rparr>],
      Inr [0, 0])"
  using dd_truncated_two_calls [where s = "ex_dd 10" and dat = "[2, 0, 4]" and rate = 2
      and delta = 2 and x = "[1, 2]" and y = "[]" and dat_int = "[]" and ?x1.0 = "[1, 2]"
      and ?rest1.0 = "[]" and pred = "[1, 2]" and ?rest2.0 = "[]",
      OF _ _ _ _ _ _ _ _ refl _ refl]
  by (simp add: ex_dd_def ex_integrator_def double_examples)





subsection \<open>Truncated infusions, variable amount\<close>

text \<open>
  C4. Every evaluation of \<^verbatim>\<open>SS_system_vd\<close> that reaches the truncated-infusion branch
  (nonzero rate, positive interval) raises the invalid-argument failure, whatever the
  amount, the rate and the interval are; it makes no integrator call and returns no
  residual.
\<close>

theorem vd_truncated_always_fails:
  fixes s :: "'a::real_algebra_1 SS_system_vd"
  assumes "y \<noteq> []" "1 \<le> vd_cmt s" "vd_cmt s \<le> int (length dat)"
    and "dat ! nat (vd_cmt s - 1) \<noteq> 0" "vd_ii s > 0"
  shows "SS_system_vd_call s x y dat dat_int =
           ([], Inl (Invalid_argument ''Steady State Solution''
                       ''Current version does not handle case of a'' (Txt '''')
                       '' multple truncated infusion solution''
                       [Txt ''(i.e ii > 0 and rate > 0) when F * amt is a parameter'']))
       \<and> is_invalid_argument (snd (SS_system_vd_call s x y dat dat_int))"
  using assms by (simp add: vd_call_dispatch vd_truncated_def invalid_argument_def)

theorem vd_truncated_always_fails_witness:
  "SS_system_vd_call (ex_vd 1000) [1, 2] [7, 1] [100, 0] [] =
     ([], Inl (Invalid_argument ''Steady State Solution''
                 ''Current version does not handle case of a'' (Txt '''')
                 '' multple truncated infusion solution''
                 [Txt ''(i.e ii > 0 and rate > 0) when F * amt is a parameter'']))
   \<and> is_invalid_argument (snd (SS_system_vd_call (ex_vd 1000) [1, 2] [7, 1] [100, 0] []))"
  using vd_truncated_always_fails [where s = "ex_vd 1000" and y = "[7, 1]"
      and dat = "[100, 0]" and x = "[1, 2]" and dat_int = "[]"]
  by (simp add: ex_vd_def)

subsection \<open>Bolus doses\<close>

text \<open>
  C5. In the bolus branch (rate zero) of both variants, with the dosing compartment inside
  the state and an integrator that returns a state, the evaluation forms \<open>x0\<close>, the candidate
  state with the amount added at the dosing compartment, makes one integrator call from
  time 0 with the single requested time \<open>ii\<close>, starting at \<open>x0\<close>, and returns
  \<open>x ! i - pred ! i\<close> at every index. \<^verbatim>\<open>SS_system_dd\<close> takes the amount from the last element
  of \<^verbatim>\<open>dat\<close> and passes \<^verbatim>\<open>y\<close> whole; \<^verbatim>\<open>SS_system_vd\<close> takes the amount from the last element
  of \<^verbatim>\<open>y\<close> and passes \<^verbatim>\<open>y\<close> without its last element.
\<close>

theorem bolus_one_call:
  fixes sd :: "'a::real_algebra_1 SS_system_dd" and sv :: "'a SS_system_vd"
  assumes "dat \<noteq> []" "1 \<le> dd_cmt sd" "dd_cmt sd \<le> int (length dat)"
    and "dat ! nat (dd_cmt sd - 1) = 0" "dd_cmt sd \<le> int (length x)"
    and "x0 = x[nat (dd_cmt sd - 1) := x ! nat (dd_cmt sd - 1) + of_real (last dat)]"
    and "dd_integrator sd (dd_f sd) x0 0 [dd_ii sd] yd dat dat_int = Inr (pred # rest)"
    and "length x \<le> length pred"
    and "y \<noteq> []" "1 \<le> vd_cmt sv" "vd_cmt sv \<le> int (length dat')"
    and "dat' ! nat (vd_cmt sv - 1) = 0" "vd_cmt sv \<le> int (length x)"
    and "x0' = x[nat (vd_cmt sv - 1) := x ! nat (vd_cmt sv - 1) + last y]"
    and "vd_integrator sv (vd_f sv) x0' 0 [vd_ii sv] (butlast y) dat' dat_int
           = Inr (pred' # rest')"
    and "length x \<le> length pred'"
  shows "SS_system_dd_call sd x yd dat dat_int =
           ([\<lparr>call_f = dd_f sd, call_init = x0, call_t0 = 0, call_ts = [dd_ii sd],
              call_parms = yd, call_rate = dat, call_dat_int = dat_int\<rparr>],
            Inr (map (\<lambda>i. x ! i - pred ! i) [0..<length x]))
       \<and> SS_system_vd_call sv x y dat' dat_int =
           ([\<lparr>call_f = vd_f sv, call_init = x0', call_t0 = 0, call_ts = [vd_ii sv],
              call_parms = butlast y, call_rate = dat', call_dat_int = dat_int\<rparr>],
            Inr (map (\<lambda>i. x ! i - pred' ! i) [0..<length x]))"
proof -
  have "SS_system_dd_call sd x yd dat dat_int = dd_bolus sd x yd dat dat_int (last dat)"
    using assms(1-4) by (simp add: dd_call_dispatch)
  moreover have "dd_bolus sd x yd dat dat_int (last dat) =
           ([\<lparr>call_f = dd_f sd, call_init = x0, call_t0 = 0, call_ts = [dd_ii sd],
              call_parms = yd, call_rate = dat, call_dat_int = dat_int\<rparr>],
            Inr (map (\<lambda>i. x ! i - pred ! i) [0..<length x]))"
    using assms(2,5-8) by (simp add: dd_bolus_def Let_def first_state_def residual_Inr)
  moreover have "SS_system_vd_call sv x y dat' dat_int
                   = vd_bolus sv x (butlast y) dat' dat_int (last y)"
    using assms(9-12) by (simp add: vd_call_dispatch)
  moreover have "vd_bolus sv x (butlast y) dat' dat_int (last y) =
           ([\<lparr>call_f = vd_f sv, call_init = x0', call_t0 = 0, call_ts = [vd_ii sv],
              call_parms = butlast y, call_rate = dat', call_dat_int = dat_int\<rparr>],
            Inr (map (\<lambda>i. x ! i - pred' ! i) [0..<length x]))"
    using assms(10,13-16) by (simp add: vd_bolus_def Let_def first_state_def residual_Inr)
  ultimately show ?thesis by simp
qed

theorem bolus_one_call_witness:
  "SS_system_dd_call (ex_dd 12) [1, 2] [7] [0, 5, 3] [] =
     ([\<lparr>call_f = ex_rhs, call_init = [4, 2], call_t0 = 0, call_ts = [12], call_parms = [7],
        call_rate = [0, 5, 3], call_dat_int = []\<rparr>], Inr [- 3, 0])
   \<and> SS_system_vd_call (ex_vd 12) [1, 2] [7, 3] [0, 5] [] =
     ([\<lparr>call_f = ex_rhs, call_init = [4, 2], call_t0 = 0, call_ts = [12], call_parms = [7],
        call_rate = [0, 5], call_dat_int = []\<rparr>], Inr [- 3, 0])"
  using bolus_one_call [where sd = "ex_dd 12" and sv = "ex_vd 12" and dat = "[0, 5, 3]"
      and dat' = "[0, 5]" and x = "[1, 2]" and yd = "[7]" and y = "[7, 3]" and dat_int = "[]"
      and pred = "[4, 2]" and pred' = "[4, 2]" and rest = "[]" and rest' = "[]",
      OF _ _ _ _ _ refl _ _ _ _ _ _ _ refl]
  by (simp add: ex_dd_def ex_vd_def ex_integrator_def)

subsection \<open>Continuous infusion\<close>

text \<open>
  C6. In the continuous-infusion branch (nonzero rate, interval zero or negative) of both
  variants the integrator is not invoked, and the outcome is the right-hand side evaluated
  at time 0 on the candidate state: \<^verbatim>\<open>SS_system_dd\<close> passes \<^verbatim>\<open>y\<close> and \<^verbatim>\<open>dat\<close> without its
  trailing amount; \<^verbatim>\<open>SS_system_vd\<close> passes \<^verbatim>\<open>y\<close> without its last element and \<^verbatim>\<open>dat\<close>, which
  has no trailing amount. What the right-hand side returns is the residual; what it throws is
  passed on.
\<close>

theorem continuous_is_rhs:
  fixes sd :: "'a::real_algebra_1 SS_system_dd" and sv :: "'a SS_system_vd"
  assumes "dat \<noteq> []" "1 \<le> dd_cmt sd" "dd_cmt sd \<le> int (length dat)"
    and "dat ! nat (dd_cmt sd - 1) \<noteq> 0" "dd_ii sd \<le> 0"
    and "y \<noteq> []" "1 \<le> vd_cmt sv" "vd_cmt sv \<le> int (length dat')"
    and "dat' ! nat (vd_cmt sv - 1) \<noteq> 0" "vd_ii sv \<le> 0"
  shows "SS_system_dd_call sd x yd dat dat_int =
           ([], case dd_f sd 0 x yd (butlast dat) dat_int of
                  Inl e \<Rightarrow> Inl (Collaborator_failure e) | Inr d \<Rightarrow> Inr d)
       \<and> SS_system_vd_call sv x y dat' dat_int =
           ([], case vd_f sv 0 x (butlast y) dat' dat_int of
                  Inl e \<Rightarrow> Inl (Collaborator_failure e) | Inr d \<Rightarrow> Inr d)"
  using assms
  by (simp add: dd_call_dispatch vd_call_dispatch dd_continuous_def vd_continuous_def
        derivative_def)

theorem continuous_is_rhs_witness:
  "SS_system_dd_call (ex_dd 0) [1, 2] [7] [2, 0, 4] [] = ([], Inr [- 1, - 2])
   \<and> SS_system_vd_call (ex_vd (- 1)) [1, 2] [7, 1] [100, 0] [] = ([], Inr [- 1, - 2])"
  using continuous_is_rhs [where sd = "ex_dd 0" and sv = "ex_vd (- 1)" and dat = "[2, 0, 4]"
      and dat' = "[100, 0]" and y = "[7, 1]" and x = "[1, 2]" and yd = "[7]"
      and dat_int = "[]"]
  by (simp add: ex_dd_def ex_vd_def ex_rhs_def)

subsection \<open>Number of integrator invocations\<close>

text \<open>
  C7, as stated (an evaluation that returns a residual never makes exactly one integrator
  call), fails: a bolus evaluation returns a residual after one call.
\<close>

theorem one_integrator_call_counterexample:
  "length (fst (SS_system_dd_call (ex_dd 12) [1, 2] [7] [0, 5, 3] [])) = 1
   \<and> snd (SS_system_dd_call (ex_dd 12) [1, 2] [7] [0, 5, 3] []) = Inr [- 3, 0]"
  by (simp add: SS_system_dd_call_def dd_bolus_def first_state_def residual_def Let_def
        ex_dd_def ex_integrator_def)

lemma dd_bolus_calls:
  "snd (dd_bolus s x y dat dat_int amt) = Inr r
     \<Longrightarrow> length (fst (dd_bolus s x y dat dat_int amt)) = 1"
  by (auto simp: dd_bolus_def Let_def split: if_splits sum.splits)

lemma vd_bolus_calls:
  "snd (vd_bolus s x y dat dat_int amt) = Inr r
     \<Longrightarrow> length (fst (vd_bolus s x y dat dat_int amt)) = 1"
  by (auto simp: vd_bolus_def Let_def split: if_splits sum.splits)

lemma dd_truncated_calls:
  "snd (dd_truncated s x y dat dat_int amt rate) = Inr r
     \<Longrightarrow> length (fst (dd_truncated s x y dat dat_int amt rate)) = 2"
  by (auto simp: dd_truncated_def Let_def split: if_splits sum.splits)

lemma dd_calls_le_2: "length (fst (SS_system_dd_call s x y dat dat_int)) \<le> 2"
  by (auto simp: SS_system_dd_call_def dd_bolus_def dd_truncated_def dd_continuous_def Let_def
        split: sum.splits)

lemma vd_calls_le_2: "length (fst (SS_system_vd_call s x y dat dat_int)) \<le> 2"
  by (auto simp: SS_system_vd_call_def vd_bolus_def vd_truncated_def vd_continuous_def Let_def
        split: sum.splits)

text \<open>
  C7, amended. An evaluation that returns a residual has made exactly one integrator call
  in the bolus branch, exactly two in the truncated-infusion branch of \<^verbatim>\<open>SS_system_dd\<close>,
  and none in the continuous-infusion branch; \<^verbatim>\<open>SS_system_vd\<close> returns no residual from its
  truncated-infusion branch. No evaluation makes more than two calls.
\<close>

theorem integrator_call_count:
  fixes sd :: "'a::real_algebra_1 SS_system_dd" and sv :: "'a SS_system_vd"
  shows "(snd (SS_system_dd_call sd x yd dat dat_int) = Inr r \<longrightarrow>
            length (fst (SS_system_dd_call sd x yd dat dat_int)) =
              (if dat ! nat (dd_cmt sd - 1) = 0 then 1 else if dd_ii sd > 0 then 2 else 0))
       \<and> (snd (SS_system_vd_call sv x y dat' dat_int) = Inr r' \<longrightarrow>
            length (fst (SS_system_vd_call sv x y dat' dat_int)) =
              (if dat' ! nat (vd_cmt sv - 1) = 0 then 1 else 0)
            \<and> \<not> (dat' ! nat (vd_cmt sv - 1) \<noteq> 0 \<and> vd_ii sv > 0))
       \<and> length (fst (SS_system_dd_call sd x yd dat dat_int)) \<le> 2
       \<and> length (fst (SS_system_vd_call sv x y dat' dat_int)) \<le> 2"
proof -
  have dd: "length (fst (SS_system_dd_call sd x yd dat dat_int)) =
              (if dat ! nat (dd_cmt sd - 1) = 0 then 1 else if dd_ii sd > 0 then 2 else 0)"
    if r: "snd (SS_system_dd_call sd x yd dat dat_int) = Inr r"
  proof -
    have pre: "dat \<noteq> []" "1 \<le> dd_cmt sd" "dd_cmt sd \<le> int (length dat)"
      using dd_call_Inr_reached [OF r] by simp_all
    show ?thesis
      using r dd_bolus_calls [of sd x yd dat dat_int "last dat" r]
        dd_truncated_calls [of sd x yd dat dat_int "last dat" "dat ! nat (dd_cmt sd - 1)" r]
      by (simp add: dd_call_dispatch [OF pre] dd_continuous_def split: if_splits)
  qed
  have vd: "length (fst (SS_system_vd_call sv x y dat' dat_int)) =
              (if dat' ! nat (vd_cmt sv - 1) = 0 then 1 else 0)
            \<and> \<not> (dat' ! nat (vd_cmt sv - 1) \<noteq> 0 \<and> vd_ii sv > 0)"
    if r: "snd (SS_system_vd_call sv x y dat' dat_int) = Inr r'"
  proof -
    have pre: "y \<noteq> []" "1 \<le> vd_cmt sv" "vd_cmt sv \<le> int (length dat')"
      using vd_call_Inr_reached [OF r] by simp_all
    show ?thesis
      using r vd_bolus_calls [of sv x "butlast y" dat' dat_int "last y" r']
      by (simp add: vd_call_dispatch [OF pre] vd_continuous_def vd_truncated_def
            split: if_splits)
  qed
  show ?thesis
    using dd vd dd_calls_le_2 [of sd x yd dat dat_int] vd_calls_le_2 [of sv x y dat' dat_int]
    by blast
qed

theorem integrator_call_count_witness:
  "snd (SS_system_dd_call (ex_dd 10) [1, 2] [] [2, 0, 4] []) = Inr [0, 0]
   \<and> length (fst (SS_system_dd_call (ex_dd 10) [1, 2] [] [2, 0, 4] [])) = 2
   \<and> snd (SS_system_vd_call (ex_vd 12) [1, 2] [7, 3] [0, 5] []) = Inr [- 3, 0]
   \<and> length (fst (SS_system_vd_call (ex_vd 12) [1, 2] [7, 3] [0, 5] [])) = 1"
proof -
  have a: "snd (SS_system_dd_call (ex_dd 10) [1, 2] [] [2, 0, 4] []) = Inr [0, 0]"
    by (simp add: SS_system_dd_call_def dd_truncated_def first_state_def residual_def Let_def
          ex_dd_def ex_integrator_def double_examples)
  have b: "snd (SS_system_vd_call (ex_vd 12) [1, 2] [7, 3] [0, 5] []) = Inr [- 3, 0]"
    by (simp add: SS_system_vd_call_def vd_bolus_def first_state_def residual_def Let_def
          ex_vd_def ex_integrator_def)
  show ?thesis
    using a b integrator_call_count [where sd = "ex_dd 10" and sv = "ex_vd 12"
        and x = "[1, 2]" and yd = "[]" and y = "[7, 3]" and dat = "[2, 0, 4]"
        and dat' = "[0, 5]" and dat_int = "[]" and r = "[0, 0]" and r' = "[- 3, 0]"]
    by (simp add: ex_dd_def ex_vd_def)
qed

subsection \<open>Length of the residual\<close>

text \<open>
  C8, as stated (every residual returned has the length of the candidate state), fails in
  the continuous-infusion branch: the residual is whatever vector the right-hand side
  returns. Here the right-hand side returns one derivative for a state of two compartments.
\<close>

theorem residual_length_counterexample:
  "snd (SS_system_dd_call
          \<lparr>dd_f = ex_rhs_short, dd_ii = 0, dd_cmt = 1, dd_integrator = ex_integrator\<rparr>
          [1, 2] [7] [2, 0, 4] []) = Inr [0]
   \<and> length [0 :: real] \<noteq> length [1, 2 :: real]"
  by (simp add: SS_system_dd_call_def dd_continuous_def derivative_def Let_def
        ex_rhs_short_def)

lemma dd_bolus_length:
  "snd (dd_bolus s x y dat dat_int amt) = Inr r \<Longrightarrow> length r = length x"
  by (auto simp: dd_bolus_def Let_def split: if_splits sum.splits dest: residual_length)

lemma vd_bolus_length:
  "snd (vd_bolus s x y dat dat_int amt) = Inr r \<Longrightarrow> length r = length x"
  by (auto simp: vd_bolus_def Let_def split: if_splits sum.splits dest: residual_length)

lemma dd_truncated_length:
  "snd (dd_truncated s x y dat dat_int amt rate) = Inr r \<Longrightarrow> length r = length x"
  by (auto simp: dd_truncated_def Let_def split: if_splits sum.splits dest: residual_length)

lemma derivative_Inr:
  "derivative f x parms rate dat_int = Inr r \<Longrightarrow> f 0 x parms rate dat_int = Inr r"
  by (auto simp: derivative_def split: sum.splits)

text \<open>
  C8, amended. A residual returned from the bolus branch or from the truncated-infusion
  branch has the length of the candidate state. A residual returned from the
  continuous-infusion branch is the vector the right-hand side returned, so it has the
  length of the candidate state whenever the right-hand side returns one derivative for each
  entry of the state.
\<close>

theorem residual_length_by_branch:
  fixes sd :: "'a::real_algebra_1 SS_system_dd" and sv :: "'a SS_system_vd"
  assumes "snd (SS_system_dd_call sd x yd dat dat_int) = Inr r"
    and "snd (SS_system_vd_call sv x y dat' dat_int) = Inr r'"
    and "rate = dat ! nat (dd_cmt sd - 1)" "rate' = dat' ! nat (vd_cmt sv - 1)"
  shows "(rate = 0 \<or> dd_ii sd > 0 \<longrightarrow> length r = length x)
       \<and> (rate \<noteq> 0 \<and> dd_ii sd \<le> 0 \<longrightarrow> dd_f sd 0 x yd (butlast dat) dat_int = Inr r)
       \<and> ((\<forall>d. dd_f sd 0 x yd (butlast dat) dat_int = Inr d \<longrightarrow> length d = length x)
            \<longrightarrow> length r = length x)
       \<and> (rate' = 0 \<longrightarrow> length r' = length x)
       \<and> (rate' \<noteq> 0 \<longrightarrow> vd_ii sv \<le> 0 \<and> vd_f sv 0 x (butlast y) dat' dat_int = Inr r')
       \<and> ((\<forall>d. vd_f sv 0 x (butlast y) dat' dat_int = Inr d \<longrightarrow> length d = length x)
            \<longrightarrow> length r' = length x)"
proof -
  have pd: "dat \<noteq> []" "1 \<le> dd_cmt sd" "dd_cmt sd \<le> int (length dat)"
    using dd_call_Inr_reached [OF assms(1)] by simp_all
  have pv: "y \<noteq> []" "1 \<le> vd_cmt sv" "vd_cmt sv \<le> int (length dat')"
    using vd_call_Inr_reached [OF assms(2)] by simp_all
  have d1: "rate = 0 \<or> dd_ii sd > 0 \<Longrightarrow> length r = length x"
    using assms(1,3) dd_bolus_length [of sd x yd dat dat_int "last dat" r]
      dd_truncated_length [of sd x yd dat dat_int "last dat" rate r]
    by (auto simp: dd_call_dispatch [OF pd] split: if_splits)
  have d2: "rate \<noteq> 0 \<and> dd_ii sd \<le> 0 \<Longrightarrow> dd_f sd 0 x yd (butlast dat) dat_int = Inr r"
    using assms(1,3)
    by (auto simp: dd_call_dispatch [OF pd] dd_continuous_def dest: derivative_Inr)
  have v1: "rate' = 0 \<Longrightarrow> length r' = length x"
    using assms(2,4) vd_bolus_length [of sv x "butlast y" dat' dat_int "last y" r']
    by (auto simp: vd_call_dispatch [OF pv] split: if_splits)
  have v2: "rate' \<noteq> 0 \<Longrightarrow> vd_ii sv \<le> 0 \<and> vd_f sv 0 x (butlast y) dat' dat_int = Inr r'"
    using assms(2,4)
    by (auto simp: vd_call_dispatch [OF pv] vd_continuous_def vd_truncated_def
          dest: derivative_Inr split: if_splits)
  have d3: "length r = length x"
    if "\<forall>d. dd_f sd 0 x yd (butlast dat) dat_int = Inr d \<longrightarrow> length d = length x"
    using that d1 d2 by (cases "rate = 0 \<or> dd_ii sd > 0") auto
  have v3: "length r' = length x"
    if "\<forall>d. vd_f sv 0 x (butlast y) dat' dat_int = Inr d \<longrightarrow> length d = length x"
    using that v1 v2 by (cases "rate' = 0") auto
  show ?thesis
    using d1 d2 d3 v1 v2 v3 by blast
qed

theorem residual_length_by_branch_witness:
  "snd (SS_system_dd_call (ex_dd 12) [1, 2] [7] [0, 5, 3] []) = Inr [- 3, 0]
   \<and> snd (SS_system_vd_call (ex_vd 12) [1, 2] [7, 3] [0, 5] []) = Inr [- 3, 0]
   \<and> length [- 3, 0 :: real] = length [1, 2 :: real]
   \<and> snd (SS_system_dd_call (ex_dd 10) [1, 2] [7] [2, 0, 4] []) = Inr [0, 0]
   \<and> length [0, 0 :: real] = length [1, 2 :: real]
   \<and> snd (SS_system_dd_call (ex_dd 0) [1, 2] [7] [2, 0, 4] []) = Inr [- 1, - 2]
   \<and> ex_rhs 0 [1, 2] [7] [2, 0] [] = Inr [- 1, - 2]
   \<and> snd (SS_system_vd_call (ex_vd 0) [1, 2] [7, 1] [100, 0] []) = Inr [- 1, - 2]
   \<and> ex_rhs 0 [1, 2] [7] [100, 0] [] = Inr [- 1, - 2]"
proof -
  have b: "snd (SS_system_dd_call (ex_dd 12) [1, 2] [7] [0, 5, 3] []) = Inr [- 3, 0]"
    "snd (SS_system_vd_call (ex_vd 12) [1, 2] [7, 3] [0, 5] []) = Inr [- 3, 0]"
    by (simp_all add: SS_system_dd_call_def dd_bolus_def SS_system_vd_call_def vd_bolus_def
          first_state_def residual_def Let_def ex_dd_def ex_vd_def ex_integrator_def)
  have t: "snd (SS_system_dd_call (ex_dd 10) [1, 2] [7] [2, 0, 4] []) = Inr [0, 0]"
    by (simp add: SS_system_dd_call_def dd_truncated_def first_state_def residual_def Let_def
          ex_dd_def ex_integrator_def double_examples)
  have c: "snd (SS_system_dd_call (ex_dd 0) [1, 2] [7] [2, 0, 4] []) = Inr [- 1, - 2]"
    "snd (SS_system_vd_call (ex_vd 0) [1, 2] [7, 1] [100, 0] []) = Inr [- 1, - 2]"
    by (simp_all add: SS_system_dd_call_def dd_continuous_def SS_system_vd_call_def
          vd_continuous_def derivative_def Let_def ex_dd_def ex_vd_def ex_rhs_def)
  have r: "(0 :: real) = [0, 5, 3] ! nat (dd_cmt (ex_dd ii) - 1)"
    "(0 :: real) = [0, 5] ! nat (vd_cmt (ex_vd ii) - 1)"
    "(2 :: real) = [2, 0, 4] ! nat (dd_cmt (ex_dd ii) - 1)"
    "(100 :: real) = [100, 0] ! nat (vd_cmt (ex_vd ii) - 1)" for ii
    by (simp_all add: ex_dd_def ex_vd_def)
  show ?thesis
    using b t c residual_length_by_branch [OF b(1) b(2) r(1) r(2)]
      residual_length_by_branch [OF t b(2) r(3) r(2)]
      residual_length_by_branch [OF c(1) c(2) r(3) r(4)]
    by (simp add: ex_dd_def ex_vd_def)
qed

subsection \<open>The rate that selects the regime\<close>

text \<open>
  C10. In both variants the rate that selects the branch is the entry of \<^verbatim>\<open>dat\<close> at the
  dosing compartment, \<open>dat ! (cmt - 1)\<close> with \<open>cmt\<close> counted from 1. Writing any value \<open>v\<close>
  into any other entry \<open>j\<close> leaves the selection as that entry decides it: if it is zero the
  bolus branch runs, whatever the rates of the other compartments are.
\<close>

theorem dispatch_reads_dosing_rate:
  fixes sd :: "'a::real_algebra_1 SS_system_dd" and sv :: "'a SS_system_vd"
  assumes "dat \<noteq> []" "1 \<le> dd_cmt sd" "dd_cmt sd \<le> int (length dat)"
    and "y \<noteq> []" "1 \<le> vd_cmt sv" "vd_cmt sv \<le> int (length dat')"
    and "j \<noteq> nat (dd_cmt sd - 1)" "j' \<noteq> nat (vd_cmt sv - 1)"
    and "rate = dat ! nat (dd_cmt sd - 1)" "rate' = dat' ! nat (vd_cmt sv - 1)"
    and "dat2 = dat[j := v]" "dat2' = dat'[j' := v']"
  shows "(rate = 0 \<longrightarrow>
            SS_system_dd_call sd x yd dat2 dat_int = dd_bolus sd x yd dat2 dat_int (last dat2))
       \<and> (rate \<noteq> 0 \<and> dd_ii sd > 0 \<longrightarrow>
            SS_system_dd_call sd x yd dat2 dat_int
              = dd_truncated sd x yd dat2 dat_int (last dat2) rate)
       \<and> (rate \<noteq> 0 \<and> dd_ii sd \<le> 0 \<longrightarrow>
            SS_system_dd_call sd x yd dat2 dat_int
              = dd_continuous sd x yd (butlast dat2) dat_int)
       \<and> (rate' = 0 \<longrightarrow>
            SS_system_vd_call sv x y dat2' dat_int
              = vd_bolus sv x (butlast y) dat2' dat_int (last y))
       \<and> (rate' \<noteq> 0 \<and> vd_ii sv > 0 \<longrightarrow> SS_system_vd_call sv x y dat2' dat_int = vd_truncated)
       \<and> (rate' \<noteq> 0 \<and> vd_ii sv \<le> 0 \<longrightarrow>
            SS_system_vd_call sv x y dat2' dat_int
              = vd_continuous sv x (butlast y) dat2' dat_int)"
proof -
  have pd: "dat2 \<noteq> []" "1 \<le> dd_cmt sd" "dd_cmt sd \<le> int (length dat2)"
    using assms by simp_all
  have pv: "y \<noteq> []" "1 \<le> vd_cmt sv" "vd_cmt sv \<le> int (length dat2')"
    using assms by simp_all
  have rd: "dat2 ! nat (dd_cmt sd - 1) = rate"
    using assms by simp
  have rv: "dat2' ! nat (vd_cmt sv - 1) = rate'"
    using assms by simp
  show ?thesis
    by (simp add: dd_call_dispatch [OF pd] vd_call_dispatch [OF pv] rd rv)
qed

theorem dispatch_reads_dosing_rate_witness:
  "SS_system_dd_call (ex_dd 12) [1, 2] [] [0, 5, 3] []
     = dd_bolus (ex_dd 12) [1, 2] [] [0, 5, 3] [] 3
   \<and> SS_system_vd_call (ex_vd 12) [1, 2] [7, 3] [0, 5] []
     = vd_bolus (ex_vd 12) [1, 2] [7] [0, 5] [] 3
   \<and> SS_system_dd_call (ex_dd 10) [1, 2] [] [2, 9, 4] []
     = dd_truncated (ex_dd 10) [1, 2] [] [2, 9, 4] [] 4 2
   \<and> SS_system_vd_call (ex_vd 10) [1, 2] [7, 3] [2, 9] [] = vd_truncated
   \<and> SS_system_dd_call (ex_dd 0) [1, 2] [] [2, 9, 4] []
     = dd_continuous (ex_dd 0) [1, 2] [] [2, 9] []
   \<and> SS_system_vd_call (ex_vd 0) [1, 2] [7, 3] [2, 9] []
     = vd_continuous (ex_vd 0) [1, 2] [7] [2, 9] []"
proof -
  have p: "[0, 0, 3] \<noteq> ([] :: real list)" "[2, 0, 4] \<noteq> ([] :: real list)"
    "[7, 3] \<noteq> ([] :: real list)"
    "1 \<le> dd_cmt (ex_dd ii)" "dd_cmt (ex_dd ii) \<le> int (length [0, 0, 3 :: real])"
    "dd_cmt (ex_dd ii) \<le> int (length [2, 0, 4 :: real])"
    "1 \<le> vd_cmt (ex_vd ii)" "vd_cmt (ex_vd ii) \<le> int (length [0, 0 :: real])"
    "vd_cmt (ex_vd ii) \<le> int (length [2, 0 :: real])"
    "1 \<noteq> nat (dd_cmt (ex_dd ii) - 1)" "1 \<noteq> nat (vd_cmt (ex_vd ii) - 1)" for ii
    by (simp_all add: ex_dd_def ex_vd_def)
  have r: "(0 :: real) = [0, 0, 3] ! nat (dd_cmt (ex_dd ii) - 1)"
    "(0 :: real) = [0, 0] ! nat (vd_cmt (ex_vd ii) - 1)"
    "(2 :: real) = [2, 0, 4] ! nat (dd_cmt (ex_dd ii) - 1)"
    "(2 :: real) = [2, 0] ! nat (vd_cmt (ex_vd ii) - 1)" for ii
    by (simp_all add: ex_dd_def ex_vd_def)
  have u: "[0, 5, 3] = [0, 0, 3 :: real][1 := 5]" "[0, 5] = [0, 0 :: real][1 := 5]"
    "[2, 9, 4] = [2, 0, 4 :: real][1 := 9]" "[2, 9] = [2, 0 :: real][1 := 9]"
    by simp_all
  show ?thesis
    using
      dispatch_reads_dosing_rate [where sd = "ex_dd 12" and sv = "ex_vd 12" and x = "[1, 2]"
        and yd = "[]" and dat_int = "[]",
        OF p(1) p(4) p(5) p(3) p(7) p(8) p(10) p(11) r(1) r(2) u(1) u(2)]
      dispatch_reads_dosing_rate [where sd = "ex_dd 10" and sv = "ex_vd 10" and x = "[1, 2]"
        and yd = "[]" and dat_int = "[]",
        OF p(2) p(4) p(6) p(3) p(7) p(9) p(10) p(11) r(3) r(4) u(3) u(4)]
      dispatch_reads_dosing_rate [where sd = "ex_dd 0" and sv = "ex_vd 0" and x = "[1, 2]"
        and yd = "[]" and dat_int = "[]",
        OF p(2) p(4) p(6) p(3) p(7) p(9) p(10) p(11) r(3) r(4) u(3) u(4)]
    by (simp add: ex_dd_def ex_vd_def)
qed

subsection \<open>What an evaluation writes\<close>

text \<open>The frame-level operators compute what the functional ones compute, append to the log
  the calls the functional ones list, and leave the functor and the arguments as they
  were. Each branch is compared on the frame the preamble hands over.\<close>

lemma write_residual_sound:
  shows "fr_result fr = replicate (length (fr_x fr)) 0 \<Longrightarrow>
           fst (write_residual fr pred) = residual (fr_x fr) pred"
    and "fr_calls (snd (write_residual fr pred)) = fr_calls fr"
    and "frame_inputs (snd (write_residual fr pred)) = frame_inputs fr"
  by (simp_all add: write_residual_def residual_def frame_inputs_def Let_def)

lemma write_derivative_sound:
  shows "fst (write_derivative fr d) = d"
    and "fr_calls (snd (write_derivative fr d)) = fr_calls fr"
    and "frame_inputs (snd (write_derivative fr d)) = frame_inputs fr"
  by (simp_all add: write_derivative_def frame_inputs_def Let_def split: sum.splits)

lemma frame_inputs_locals:
  shows "frame_inputs (fr\<lparr>fr_ts := ts\<rparr>) = frame_inputs fr"
    and "frame_inputs (fr\<lparr>fr_rate_v := rv\<rparr>) = frame_inputs fr"
    and "frame_inputs (fr\<lparr>fr_x0 := x0\<rparr>) = frame_inputs fr"
    and "frame_inputs (fr\<lparr>fr_parms := ps\<rparr>) = frame_inputs fr"
    and "frame_inputs (fr\<lparr>fr_result := res\<rparr>) = frame_inputs fr"
    and "frame_inputs (fr\<lparr>fr_calls := cs\<rparr>) = frame_inputs fr"
  by (simp_all add: frame_inputs_def)

lemma dd_exec_bolus_sound:
  assumes "fr_result fr = replicate (length (fr_x fr)) 0" "fr_x0 fr = fr_x fr" "fr_ts fr = [0]"
  shows "fst (dd_exec_bolus fr amt) =
           snd (dd_bolus (fr_this fr) (fr_x fr) (fr_y fr) (fr_dat fr) (fr_dat_int fr) amt)"
    and "fr_calls (snd (dd_exec_bolus fr amt)) = fr_calls fr @
           fst (dd_bolus (fr_this fr) (fr_x fr) (fr_y fr) (fr_dat fr) (fr_dat_int fr) amt)"
    and "frame_inputs (snd (dd_exec_bolus fr amt)) = frame_inputs fr"
  using assms
  by (simp_all add: dd_exec_bolus_def dd_bolus_def record_call_def Let_def
        write_residual_sound frame_inputs_locals split: sum.splits)

lemma vd_exec_bolus_sound:
  assumes "fr_result fr = replicate (length (fr_x fr)) 0" "fr_x0 fr = fr_x fr" "fr_ts fr = [0]"
  shows "fst (vd_exec_bolus fr amt) =
           snd (vd_bolus (fr_this fr) (fr_x fr) (fr_parms fr) (fr_dat fr) (fr_dat_int fr) amt)"
    and "fr_calls (snd (vd_exec_bolus fr amt)) = fr_calls fr @
           fst (vd_bolus (fr_this fr) (fr_x fr) (fr_parms fr) (fr_dat fr) (fr_dat_int fr) amt)"
    and "frame_inputs (snd (vd_exec_bolus fr amt)) = frame_inputs fr"
  using assms
  by (simp_all add: vd_exec_bolus_def vd_bolus_def record_call_def Let_def
        write_residual_sound frame_inputs_locals split: sum.splits)

lemma dd_exec_truncated_sound:
  assumes "fr_result fr = replicate (length (fr_x fr)) 0" "fr_ts fr = [0]"
  shows "fst (dd_exec_truncated fr amt rate) =
           snd (dd_truncated (fr_this fr) (fr_x fr) (fr_y fr) (fr_dat fr) (fr_dat_int fr)
                  amt rate)"
    and "fr_calls (snd (dd_exec_truncated fr amt rate)) = fr_calls fr @
           fst (dd_truncated (fr_this fr) (fr_x fr) (fr_y fr) (fr_dat fr) (fr_dat_int fr)
                  amt rate)"
    and "frame_inputs (snd (dd_exec_truncated fr amt rate)) = frame_inputs fr"
  using assms
  by (simp_all add: dd_exec_truncated_def dd_truncated_def record_call_def Let_def
        write_residual_sound frame_inputs_locals split: sum.splits)

lemma dd_exec_continuous_sound:
  shows "fst (dd_exec_continuous fr) =
           snd (dd_continuous (fr_this fr) (fr_x fr) (fr_y fr) (fr_rate_v fr) (fr_dat_int fr))"
    and "fr_calls (snd (dd_exec_continuous fr)) = fr_calls fr @
           fst (dd_continuous (fr_this fr) (fr_x fr) (fr_y fr) (fr_rate_v fr) (fr_dat_int fr))"
    and "frame_inputs (snd (dd_exec_continuous fr)) = frame_inputs fr"
  by (simp_all add: dd_exec_continuous_def dd_continuous_def write_derivative_sound)

lemma vd_exec_continuous_sound:
  shows "fst (vd_exec_continuous fr) =
           snd (vd_continuous (fr_this fr) (fr_x fr) (fr_parms fr) (fr_dat fr) (fr_dat_int fr))"
    and "fr_calls (snd (vd_exec_continuous fr)) = fr_calls fr @
           fst (vd_continuous (fr_this fr) (fr_x fr) (fr_parms fr) (fr_dat fr) (fr_dat_int fr))"
    and "frame_inputs (snd (vd_exec_continuous fr)) = frame_inputs fr"
  by (simp_all add: vd_exec_continuous_def vd_continuous_def write_derivative_sound)

lemma vd_exec_truncated_sound:
  shows "fst (vd_exec_truncated fr) = snd vd_truncated"
    and "fr_calls (snd (vd_exec_truncated fr)) = fr_calls fr @ fst vd_truncated"
    and "frame_inputs (snd (vd_exec_truncated fr)) = frame_inputs fr"
  by (simp_all add: vd_exec_truncated_def vd_truncated_def)

lemma dd_exec_sound:
  shows "fst (dd_exec fr) =
           snd (SS_system_dd_call (fr_this fr) (fr_x fr) (fr_y fr) (fr_dat fr) (fr_dat_int fr))"
    and "fr_calls (snd (dd_exec fr)) = fr_calls fr @
           fst (SS_system_dd_call (fr_this fr) (fr_x fr) (fr_y fr) (fr_dat fr) (fr_dat_int fr))"
    and "frame_inputs (snd (dd_exec fr)) = frame_inputs fr"
  by (simp_all add: dd_exec_def SS_system_dd_call_def Let_def copy_loop_all
        dd_exec_bolus_sound dd_exec_truncated_sound dd_exec_continuous_sound
        frame_inputs_locals)

lemma vd_exec_sound:
  shows "fst (vd_exec fr) =
           snd (SS_system_vd_call (fr_this fr) (fr_x fr) (fr_y fr) (fr_dat fr) (fr_dat_int fr))"
    and "fr_calls (snd (vd_exec fr)) = fr_calls fr @
           fst (SS_system_vd_call (fr_this fr) (fr_x fr) (fr_y fr) (fr_dat fr) (fr_dat_int fr))"
    and "frame_inputs (snd (vd_exec fr)) = frame_inputs fr"
  by (simp_all add: vd_exec_def SS_system_vd_call_def Let_def copy_loop_all
        vd_exec_bolus_sound vd_exec_truncated_sound vd_exec_continuous_sound
        frame_inputs_locals)

text \<open>
  C9. The functor is its four construction-time fields. An evaluation leaves the functor and
  its four arguments (candidate state, parameters, data, integer data) as they were: every
  write goes to a local vector. Its outcome depends on the functor and the arguments only:
  two frames that hold the same functor and the same arguments produce the same outcome,
  whatever their locals and their log of earlier integrator calls hold.
\<close>

theorem evaluation_stateless:
  fixes fd fd' :: "('a::real_algebra_1 SS_system_dd, 'a) frame"
    and fv fv' :: "('a SS_system_vd, 'a) frame"
  shows "frame_inputs (snd (dd_exec fd)) = frame_inputs fd
       \<and> frame_inputs (snd (vd_exec fv)) = frame_inputs fv
       \<and> (frame_inputs fd' = frame_inputs fd \<longrightarrow> fst (dd_exec fd') = fst (dd_exec fd))
       \<and> (frame_inputs fv' = frame_inputs fv \<longrightarrow> fst (vd_exec fv') = fst (vd_exec fv))
       \<and> fr_this fd = \<lparr>dd_f = dd_f (fr_this fd), dd_ii = dd_ii (fr_this fd),
                        dd_cmt = dd_cmt (fr_this fd),
                        dd_integrator = dd_integrator (fr_this fd)\<rparr>
       \<and> fr_this fv = \<lparr>vd_f = vd_f (fr_this fv), vd_ii = vd_ii (fr_this fv),
                        vd_cmt = vd_cmt (fr_this fv),
                        vd_integrator = vd_integrator (fr_this fv)\<rparr>"
proof -
  have "fst (dd_exec fd') = fst (dd_exec fd)" if "frame_inputs fd' = frame_inputs fd"
    using that by (simp add: dd_exec_sound(1) frame_inputs_def)
  moreover have "fst (vd_exec fv') = fst (vd_exec fv)" if "frame_inputs fv' = frame_inputs fv"
    using that by (simp add: vd_exec_sound(1) frame_inputs_def)
  ultimately show ?thesis
    by (simp add: dd_exec_sound(3) vd_exec_sound(3))
qed

theorem evaluation_stateless_witness:
  "frame_inputs ((fresh_frame (ex_dd 12) [1, 2 :: real] [7] [0, 5, 3] [])
                   \<lparr>fr_ts := [99], fr_x0 := [8, 8], fr_result := [5]\<rparr>)
     = frame_inputs (fresh_frame (ex_dd 12) [1, 2 :: real] [7] [0, 5, 3] [])
   \<and> fst (dd_exec ((fresh_frame (ex_dd 12) [1, 2 :: real] [7] [0, 5, 3] [])
                      \<lparr>fr_ts := [99], fr_x0 := [8, 8], fr_result := [5]\<rparr>))
     = fst (dd_exec (fresh_frame (ex_dd 12) [1, 2 :: real] [7] [0, 5, 3] []))
   \<and> frame_inputs ((fresh_frame (ex_vd 0) [1, 2 :: real] [7, 1] [100, 0] [])
                     \<lparr>fr_parms := [4], fr_rate_v := [6]\<rparr>)
     = frame_inputs (fresh_frame (ex_vd 0) [1, 2 :: real] [7, 1] [100, 0] [])
   \<and> fst (vd_exec ((fresh_frame (ex_vd 0) [1, 2 :: real] [7, 1] [100, 0] [])
                      \<lparr>fr_parms := [4], fr_rate_v := [6]\<rparr>))
     = fst (vd_exec (fresh_frame (ex_vd 0) [1, 2 :: real] [7, 1] [100, 0] []))
   \<and> fst (dd_exec (fresh_frame (ex_dd 12) [1, 2 :: real] [7] [0, 5, 3] [])) = Inr [- 3, 0]
   \<and> fst (vd_exec (fresh_frame (ex_vd 0) [1, 2 :: real] [7, 1] [100, 0] [])) = Inr [- 1, - 2]"
proof -
  have c: "fst (dd_exec (fresh_frame (ex_dd 12) [1, 2 :: real] [7] [0, 5, 3] [])) = Inr [- 3, 0]"
    by (simp add: dd_exec_sound(1) fresh_frame_def SS_system_dd_call_def dd_bolus_def
          first_state_def residual_def Let_def ex_dd_def ex_integrator_def)
  have d: "fst (vd_exec (fresh_frame (ex_vd 0) [1, 2 :: real] [7, 1] [100, 0] []))
             = Inr [- 1, - 2]"
    by (simp add: vd_exec_sound(1) fresh_frame_def SS_system_vd_call_def vd_continuous_def
          derivative_def Let_def ex_vd_def ex_rhs_def)
  have a: "frame_inputs ((fresh_frame (ex_dd 12) [1, 2 :: real] [7] [0, 5, 3] [])
                           \<lparr>fr_ts := [99], fr_x0 := [8, 8], fr_result := [5]\<rparr>)
             = frame_inputs (fresh_frame (ex_dd 12) [1, 2 :: real] [7] [0, 5, 3] [])"
    by (simp add: frame_inputs_def)
  have b: "frame_inputs ((fresh_frame (ex_vd 0) [1, 2 :: real] [7, 1] [100, 0] [])
                           \<lparr>fr_parms := [4], fr_rate_v := [6]\<rparr>)
             = frame_inputs (fresh_frame (ex_vd 0) [1, 2 :: real] [7, 1] [100, 0] [])"
    by (simp add: frame_inputs_def)
  show ?thesis
    using a b c d
      evaluation_stateless [where fd = "fresh_frame (ex_dd 12) [1, 2 :: real] [7] [0, 5, 3] []"
        and fd' = "(fresh_frame (ex_dd 12) [1, 2 :: real] [7] [0, 5, 3] [])
                     \<lparr>fr_ts := [99], fr_x0 := [8, 8], fr_result := [5]\<rparr>"
        and fv = "fresh_frame (ex_vd 0) [1, 2 :: real] [7, 1] [100, 0] []"
        and fv' = "(fresh_frame (ex_vd 0) [1, 2 :: real] [7, 1] [100, 0] [])
                     \<lparr>fr_parms := [4], fr_rate_v := [6]\<rparr>"]
    by blast
qed

end
